theory Spec2Isabelle
  imports Main "HOL-Library.AList"
begin

section \<open>Characters and strings\<close>

text \<open>
  Strings are byte strings (\<open>char list\<close>): the package is Python 2 code and
  \<open>Config.from_file\<close> reads the file as a byte string.
\<close>

definition is_digit :: "char \<Rightarrow> bool" where
  "is_digit c = (let n = (of_char c :: nat) in 48 \<le> n \<and> n \<le> 57)"

definition is_alpha :: "char \<Rightarrow> bool" where
  "is_alpha c = (let n = (of_char c :: nat) in (65 \<le> n \<and> n \<le> 90) \<or> (97 \<le> n \<and> n \<le> 122))"

text \<open>\<open>RE_SECTION_NAME\<close> is \<open>[-_a-zA-Z0-9]+\<close>: the characters of a name.\<close>

definition is_name_char :: "char \<Rightarrow> bool" where
  "is_name_char c = (c = CHR ''-'' \<or> c = CHR ''_'' \<or> is_alpha c \<or> is_digit c)"

text \<open>What \<open>str.strip()\<close> removes from a byte string: space, and \<open>\t \n \v \f \r\<close>.\<close>

definition is_space :: "char \<Rightarrow> bool" where
  "is_space c = (let n = (of_char c :: nat) in n = 32 \<or> (9 \<le> n \<and> n \<le> 13))"

text \<open>
  What pyparsing skips before every token (its default white characters
  \<open>" \n\t\r"\<close>).
\<close>

definition is_white :: "char \<Rightarrow> bool" where
  "is_white c = (c = CHR '' '' \<or> c = CHR 0x0A \<or> c = CHR 0x09 \<or> c = CHR 0x0D)"

definition skip_white :: "string \<Rightarrow> string" where
  "skip_white s = dropWhile is_white s"

text \<open>\<open>text.split("\n")\<close>: never empty, one more piece than there are newlines.\<close>

fun split_nl :: "string \<Rightarrow> string list" where
  "split_nl [] = [[]]"
| "split_nl (c # cs) =
     (if c = CHR 0x0A then [] # split_nl cs
      else (case split_nl cs of [] \<Rightarrow> [[c]] | l # ls \<Rightarrow> (c # l) # ls))"

text \<open>
  \<open>str.expandtabs()\<close> with the default tab size 8, which pyparsing's
  \<open>parseString\<close> applies to its input first: a tab becomes the spaces up to the next
  multiple of 8 of the column; a newline or carriage return resets the column.
\<close>

fun expandtabs_from :: "nat \<Rightarrow> string \<Rightarrow> string" where
  "expandtabs_from j [] = []"
| "expandtabs_from j (c # cs) =
     (if c = CHR 0x09
      then replicate (8 - j mod 8) (CHR '' '') @ expandtabs_from (j + (8 - j mod 8)) cs
      else c # expandtabs_from (if c = CHR 0x0A \<or> c = CHR 0x0D then 0 else Suc j) cs)"

definition expandtabs :: "string \<Rightarrow> string" where
  "expandtabs s = expandtabs_from 0 s"

text \<open>\<open>int(t[0])\<close> on a string of decimal digits.\<close>

definition digit_val :: "char \<Rightarrow> int" where
  "digit_val c = of_char c - 48"

definition int_of_digits :: "string \<Rightarrow> int" where
  "int_of_digits ds = foldl (\<lambda>a c. 10 * a + digit_val c) 0 ds"

section \<open>The line grammar of config.py\<close>

text \<open>
  \<open>CONFIG_LINE = COMMENT_LINE ^ SECTION_LINE ^ VALUE_LINE\<close>. The three alternatives
  start with different characters, so at most one matches and the longest-match rule
  of \<open>^\<close> never has to choose. \<open>parseString\<close> does not ask for the whole line to be
  consumed: what follows a section's \<open>]\<close> is ignored.
\<close>

datatype config_line =
    COMMENT_LINE string
  | SECTION_LINE string
  | VALUE_LINE int string

definition parse_section :: "string \<Rightarrow> config_line option" where
  "parse_section rest =
     (let r1 = skip_white rest;
          name = takeWhile is_name_char r1;
          r2 = skip_white (dropWhile is_name_char r1)
      in if name = [] then None
         else (case r2 of [] \<Rightarrow> None
               | c # _ \<Rightarrow> if c = CHR '']'' then Some (SECTION_LINE name) else None))"

definition parse_value :: "string \<Rightarrow> config_line option" where
  "parse_value s =
     (let digits = takeWhile is_digit s;
          r1 = skip_white (dropWhile is_digit s)
      in (case r1 of [] \<Rightarrow> None
          | c # r2 \<Rightarrow>
              if c = CHR '':'' then
                (let v = skip_white r2
                 in if v = [] then None
                    else Some (VALUE_LINE (int_of_digits digits) v))
              else None))"

definition parseString :: "string \<Rightarrow> config_line option" where
  "parseString line =
     (case skip_white (expandtabs line) of
        [] \<Rightarrow> None
      | c # rest \<Rightarrow>
          if c = CHR ''#'' then Some (COMMENT_LINE (skip_white rest))
          else if c = CHR ''['' then parse_section rest
          else if is_digit c then parse_value (c # rest)
          else None)"

section \<open>Exceptions\<close>

text \<open>
  Every exception the modelled code can raise is a value. \<open>ConfigException\<close> carries
  the line number, the line and the cause, as the class in config.py does.
  \<open>ValueError_missing\<close> carries every registered reference that names no collection:
  the source reports the first one its (unordered, Python 2) dictionary yields.
  \<open>KeyError\<close> is what a dictionary without \<open>__missing__\<close> raises for a key it
  does not have; \<open>Config\<close> and \<open>ReferenceCollection\<close> both define
  \<open>__missing__\<close>, so no lookup of the modelled code raises it.
  \<open>Outside_fragment\<close> is not a Python exception: it marks a format string that uses a
  replacement field other than \<open>{<digits>!s}\<close>, which this development does not
  model (see \<open>field_piece\<close>).
\<close>

datatype exc =
    ParseException
  | ValueError_empty_collection string
  | ValueError_item_outside_section
  | ValueError_missing "string list"
  | ValueError_format
  | IndexError
  | KeyError string
  | RuntimeError_recursion
  | Outside_fragment
  | ConfigException nat string exc

section \<open>refs.py\<close>

subsection \<open>unique\<close>

text \<open>
  \<open>unique(seq)\<close>: the list comprehension keeps an element when it has not been seen
  and adds it to \<open>seen\<close>.
\<close>

fun unique_from :: "'a list \<Rightarrow> 'a list \<Rightarrow> 'a list" where
  "unique_from seen [] = []"
| "unique_from seen (x # xs) =
     (if x \<in> set seen then unique_from seen xs else x # unique_from (x # seen) xs)"

definition unique :: "'a list \<Rightarrow> 'a list" where
  "unique seq = unique_from [] seq"

subsection \<open>The regular expression and str.replace\<close>

text \<open>
  \<open>re.findall(r'<(' + pattern + r')>', raw_text)\<close> with the pattern
  \<open>[-_a-zA-Z0-9]+\<close> that \<open>from_string\<close> passes: the matches from left to right, none
  overlapping. A match starts at a \<open><\<close>, takes the longest run of name characters
  (one at least) and needs a \<open>>\<close> right after it; the search goes on after the
  \<open>>\<close>. Where there is no match at a position, the search moves one character on.
\<close>

function findall :: "string \<Rightarrow> string list" where
  "findall [] = []"
| "findall (c # cs) =
     (if c = CHR ''<'' \<and> takeWhile is_name_char cs \<noteq> []
         \<and> dropWhile is_name_char cs \<noteq> [] \<and> hd (dropWhile is_name_char cs) = CHR ''>''
      then takeWhile is_name_char cs # findall (tl (dropWhile is_name_char cs))
      else findall cs)"
  by pat_completeness auto
termination
proof (relation "measure length")
  show "wf (measure length)" by simp
next
  fix c :: char and cs :: string
  have "length (tl (dropWhile is_name_char cs)) \<le> length cs"
    using length_dropWhile_le [of is_name_char cs] by simp
  then show "(tl (dropWhile is_name_char cs), c # cs) \<in> measure length" by simp
next
  fix c :: char and cs :: string
  show "(cs, c # cs) \<in> measure length" by simp
qed

text \<open>
  \<open>s.replace(old, new)\<close>: every occurrence of \<open>old\<close> from left to right, none
  overlapping. The source only calls it with \<open>old = "<name>"\<close>, never empty; with an
  empty \<open>old\<close> this function returns the string unchanged, which is not what Python
  does.
\<close>

function str_replace :: "string \<Rightarrow> string \<Rightarrow> string \<Rightarrow> string" where
  "str_replace old new [] = []"
| "str_replace old new (c # cs) =
     (if old \<noteq> [] \<and> take (length old) (c # cs) = old
      then new @ str_replace old new (drop (length old) (c # cs))
      else c # str_replace old new cs)"
  by pat_completeness auto
termination
  by (relation "measure (\<lambda>(old, new, s). length s)") auto

text \<open>\<open>"{:d}".format(idx)\<close>: a natural number in decimal.\<close>

definition digit_char :: "nat \<Rightarrow> char" where
  "digit_char d = char_of (48 + d)"

fun show_nat :: "nat \<Rightarrow> string" where
  "show_nat n = (if n < 10 then [digit_char n] else show_nat (n div 10) @ [digit_char (n mod 10)])"

declare show_nat.simps [simp del]

subsection \<open>str.format\<close>

text \<open>
  What \<open>str.format\<close> reads in a format string, in the order it meets it: a literal
  character (\<open>{{\<close> and \<open>}}\<close> stand for one brace), a replacement field, or the error
  it stops at. The iterator is the one of CPython's \<open>string_format.h\<close>: a \<open>}\<close> that
  is not doubled, a \<open>{\<close> at the very end and a field that is not closed are
  \<open>ValueError\<close>s.
\<close>

datatype piece = Literal char | Field nat | Bad exc

text \<open>
  The text of a field runs to the \<open>}\<close> that closes it, braces inside it counted.
\<close>

fun field_end :: "nat \<Rightarrow> string \<Rightarrow> (string \<times> string) option" where
  "field_end n [] = None"
| "field_end n (c # cs) =
     (if c = CHR ''}'' \<and> n \<le> 1 then Some ([], cs)
      else (case field_end (if c = CHR ''{'' then Suc n else if c = CHR ''}'' then n - 1 else n) cs of
              None \<Rightarrow> None
            | Some (f, rest) \<Rightarrow> Some (c # f, rest)))"

text \<open>
  The fields modelled are those \<open>ReferenceCollection.format\<close> writes:
  \<open>{<digits>!s}\<close>, the positional argument of that index converted with \<open>str\<close>.
  An index beyond \<open>PY_SSIZE_T_MAX\<close> (a 64-bit build) is the \<open>ValueError\<close>
  "Too many decimal digits in format string". Any other field (a name, an attribute,
  a format specification, automatic numbering) is \<open>Outside_fragment\<close>.
\<close>

definition field_piece :: "string \<Rightarrow> piece" where
  "field_piece f =
     (let ds = takeWhile is_digit f
      in if ds \<noteq> [] \<and> dropWhile is_digit f = ''!s''
         then (if int_of_digits ds > 9223372036854775807 then Bad ValueError_format
               else Field (nat (int_of_digits ds)))
         else Bad Outside_fragment)"

lemma field_end_length: "field_end n s = Some (f, rest) \<Longrightarrow> length rest < length s"
proof (induction s arbitrary: n f rest)
  case Nil
  then show ?case by simp
next
  case (Cons c cs)
  then show ?case
    by (fastforce split: if_splits option.splits)
qed

function fmt_pieces :: "string \<Rightarrow> piece list" where
  "fmt_pieces [] = []"
| "fmt_pieces (c # cs) =
     (if c = CHR ''{'' then
        (case cs of
           [] \<Rightarrow> [Bad ValueError_format]
         | d # ds \<Rightarrow>
             if d = CHR ''{'' then Literal c # fmt_pieces ds
             else (case field_end 1 cs of
                     None \<Rightarrow> [Bad ValueError_format]
                   | Some (f, rest) \<Rightarrow>
                       (case field_piece f of
                          Bad e \<Rightarrow> [Bad e]
                        | p \<Rightarrow> p # fmt_pieces rest)))
      else if c = CHR ''}'' then
        (case cs of
           [] \<Rightarrow> [Bad ValueError_format]
         | d # ds \<Rightarrow> if d = CHR ''}'' then Literal c # fmt_pieces ds else [Bad ValueError_format])
      else Literal c # fmt_pieces cs)"
  by pat_completeness auto
termination
  by (relation "measure length")
    (auto simp del: field_end.simps dest: field_end_length)

text \<open>
  \<open>ReferenceFormat.__init__\<close> formats the string once with
  \<open>len(substitutions)\<close> copies of \<open>"test"\<close> and lets any exception through.
  \<open>fmt_validate n ps\<close> is the exception of that call (\<open>None\<close> when it returns): the
  pieces are met from left to right, and a field whose index is not below \<open>n\<close> is
  the \<open>IndexError\<close> of the argument tuple.
\<close>

fun fmt_validate :: "nat \<Rightarrow> piece list \<Rightarrow> exc option" where
  "fmt_validate n [] = None"
| "fmt_validate n (Literal c # ps) = fmt_validate n ps"
| "fmt_validate n (Field i # ps) = (if i < n then fmt_validate n ps else Some IndexError)"
| "fmt_validate n (Bad e # ps) = Some e"

subsection \<open>Template values and ReferenceCollection\<close>

text \<open>
  What \<open>ReferenceCollection.format\<close> returns, and so what a \<open>WeightedItem\<close> of a
  grammar holds: the raw text (a \<open>str\<close>), a \<open>Reference\<close> with its key, or a
  \<open>ReferenceFormat\<close> with its format string and its substitutions (the keys of
  its \<open>Reference\<close>s). Every \<open>Reference\<close> of a grammar has the grammar's
  \<open>Config\<close> as its source, so the key stands for the object.
\<close>

datatype tvalue =
    Str string
  | Reference string
  | ReferenceFormat string "string list"

text \<open>
  A \<open>ReferenceCollection\<close> is a dictionary from a key to its \<open>Reference\<close>; the list
  holds its keys. \<open>self[key]\<close> adds the key when it is missing (\<open>__missing__\<close>).
\<close>

definition refs_getitem :: "string list \<Rightarrow> string \<Rightarrow> string list" where
  "refs_getitem refs key = (if key \<in> set refs then refs else refs @ [key])"

definition marker :: "string \<Rightarrow> string" where
  "marker name = ''<'' @ name @ ''>''"

definition placeholder :: "nat \<Rightarrow> string" where
  "placeholder idx = ''{'' @ show_nat idx @ ''!s}''"

text \<open>
  The loop \<open>for idx, name in enumerate(replace)\<close> of \<open>format\<close>, from index \<open>idx\<close>.
\<close>

fun replace_all :: "nat \<Rightarrow> string list \<Rightarrow> string \<Rightarrow> string" where
  "replace_all idx [] string_format = string_format"
| "replace_all idx (name # names) string_format =
     replace_all (Suc idx) names (str_replace (marker name) (placeholder idx) string_format)"

text \<open>
  \<open>ReferenceCollection.format(raw_text, pattern)\<close>: the value or the exception, and
  the keys of the collection afterwards. The \<open>Reference\<close>s are looked up (and
  registered) before \<open>ReferenceFormat\<close> is called, so they are registered even when
  its check of the format string raises.
\<close>

definition format_refs :: "string list \<Rightarrow> string \<Rightarrow> (exc + tvalue) \<times> string list" where
  "format_refs refs raw_text =
     (let refnames = findall raw_text
      in if length refnames < 1 then (Inr (Str raw_text), refs)
         else if raw_text = marker (hd refnames)
         then (Inr (Reference (hd refnames)), refs_getitem refs (hd refnames))
         else (let replace = unique refnames;
                   string_format = replace_all 0 replace raw_text;
                   refs' = foldl refs_getitem refs replace
               in (case fmt_validate (length replace) (fmt_pieces string_format) of
                     Some e \<Rightarrow> (Inl e, refs')
                   | None \<Rightarrow> (Inr (ReferenceFormat string_format replace), refs'))))"

section \<open>weight.py\<close>

text \<open>
  A \<open>WeightedItem\<close> bundles a weight (a Python \<open>int\<close>: the setter stores
  \<open>int(value)\<close>) and a value. A \<open>WeightedCollection\<close> is the list of its items.
\<close>

record weighted_item =
  weight :: int
  item_value :: tvalue

type_synonym collection = "weighted_item list"

definition add_item :: "collection \<Rightarrow> tvalue \<Rightarrow> int \<Rightarrow> collection" where
  "add_item items v w = items @ [\<lparr>weight = w, item_value = v\<rparr>]"

text \<open>\<open>__len__\<close>: the sum of the weights.\<close>

definition len_wc :: "collection \<Rightarrow> int" where
  "len_wc items = sum_list (map weight items)"

text \<open>
  \<open>__iter__\<close>: for each item, \<open>range(item.weight)\<close> times the item;
  \<open>range\<close> of a number that is not positive is empty.
\<close>

fun iter_wc :: "collection \<Rightarrow> weighted_item list" where
  "iter_wc [] = []"
| "iter_wc (item # items) = replicate (nat (weight item)) item @ iter_wc items"

text \<open>
  The random source is the sequence of the numbers it will return; a draw takes the
  first and leaves the rest. \<open>random.choice(seq)\<close> is
  \<open>seq[int(self.random() * len(seq))]\<close>: it takes one number from the source and
  turns it into an index below \<open>len(seq)\<close>; an empty \<open>seq\<close> is an \<open>IndexError\<close>.
  The number is a natural number here and the index its remainder, so that every index
  is the result of some number.
\<close>

type_synonym rng = "nat \<Rightarrow> nat"

definition rng_next :: "rng \<Rightarrow> rng" where
  "rng_next g = (\<lambda>i. g (Suc i))"

definition random_choice :: "'a list \<Rightarrow> rng \<Rightarrow> (exc + 'a) \<times> rng" where
  "random_choice seq g =
     (if seq = [] then (Inl IndexError, rng_next g)
      else (Inr (seq ! (g 0 mod length seq)), rng_next g))"

section \<open>config.py\<close>

text \<open>
  \<open>Config\<close> is an \<open>OrderedDict\<close> from a section name to its \<open>RandomString\<close>: an
  association list in the order of insertion. It owns one \<open>ReferenceCollection\<close>.
\<close>

type_synonym sections = "(string \<times> collection) list"

record config =
  sections :: sections
  references :: "string list"

text \<open>
  \<open>conf[name]\<close>: \<open>Config.__missing__\<close> stores a new, empty \<open>RandomString\<close> under a
  name that is not a key and returns it. (\<open>name\<close> is a string here; the source guards
  every lookup of \<open>current_section\<close> against \<open>None\<close>.)
\<close>

definition config_getitem :: "sections \<Rightarrow> string \<Rightarrow> collection \<times> sections" where
  "config_getitem conf name =
     (case map_of conf name of
        Some c \<Rightarrow> (c, conf)
      | None \<Rightarrow> ([], AList.update name [] conf))"

definition check_section :: "sections \<Rightarrow> string option \<Rightarrow> exc + sections" where
  "check_section conf name =
     (case name of
        None \<Rightarrow> Inr conf
      | Some n \<Rightarrow>
          (let (c, conf') = config_getitem conf n
           in if len_wc c < 1 then Inl (ValueError_empty_collection n) else Inr conf'))"

text \<open>\<open>config[current_section].add(text, weight=weight)\<close>.\<close>

definition config_add :: "sections \<Rightarrow> string \<Rightarrow> tvalue \<Rightarrow> int \<Rightarrow> sections" where
  "config_add conf name v w =
     (let (c, conf') = config_getitem conf name
      in AList.update name (add_item c v w) conf')"

text \<open>\<open>not line.strip()\<close>.\<close>

definition blank :: "string \<Rightarrow> bool" where
  "blank line = list_all is_space line"

text \<open>
  One turn of the loop of \<open>from_string\<close> over what \<open>parse_config\<close> yields for the
  line: the state is the configuration and \<open>current_section\<close>. The last branch of
  the source (\<open>"Invalid line"\<close>) is not reachable: a result of \<open>CONFIG_LINE\<close> has the
  names of one of its three alternatives.
\<close>

fun process_line ::
  "config \<times> string option \<Rightarrow> nat \<Rightarrow> string \<Rightarrow> exc + config \<times> string option" where
  "process_line (conf, current_section) lineno line =
     (if blank line then
        (case check_section (sections conf) current_section of
           Inl e \<Rightarrow> Inl (ConfigException lineno line e)
         | Inr secs \<Rightarrow> Inr (conf\<lparr>sections := secs\<rparr>, None))
      else
        (case parseString line of
           None \<Rightarrow> Inl (ConfigException lineno line ParseException)
         | Some (COMMENT_LINE _) \<Rightarrow> Inr (conf, current_section)
         | Some (SECTION_LINE name) \<Rightarrow>
             (case check_section (sections conf) current_section of
                Inl e \<Rightarrow> Inl (ConfigException lineno line e)
              | Inr secs \<Rightarrow> Inr (conf\<lparr>sections := secs\<rparr>, Some name))
         | Some (VALUE_LINE w v) \<Rightarrow>
             (case current_section of
                None \<Rightarrow> Inl (ConfigException lineno line ValueError_item_outside_section)
              | Some name \<Rightarrow>
                  (case format_refs (references conf) v of
                     (Inl e, _) \<Rightarrow> Inl (ConfigException lineno line e)
                   | (Inr t, refs) \<Rightarrow>
                       Inr (\<lparr>sections = config_add (sections conf) name t w,
                             references = refs\<rparr>, current_section)))))"

fun process_lines ::
  "config \<times> string option \<Rightarrow> nat \<Rightarrow> string list \<Rightarrow> exc + config \<times> string option" where
  "process_lines st lineno [] = Inr st"
| "process_lines st lineno (line # lines) =
     (case process_line st lineno line of
        Inl e \<Rightarrow> Inl e
      | Inr st' \<Rightarrow> process_lines st' (Suc lineno) lines)"

text \<open>The check after the loop: every registered reference is a key.\<close>

definition missing_refs :: "config \<Rightarrow> string list" where
  "missing_refs conf = filter (\<lambda>ref. ref \<notin> set (map fst (sections conf))) (references conf)"

definition from_string :: "string \<Rightarrow> exc + config" where
  "from_string config_string =
     (case process_lines (\<lparr>sections = [], references = []\<rparr>, None) 1 (split_nl config_string) of
        Inl e \<Rightarrow> Inl e
      | Inr (conf, _) \<Rightarrow>
          (if missing_refs conf = [] then Inr conf
           else Inl (ValueError_missing (missing_refs conf))))"

section \<open>Rendering\<close>

text \<open>
  \<open>str\<close> of a \<open>Reference\<close>, of a \<open>RandomString\<close>, of a value and of a
  \<open>ReferenceFormat\<close> call each other. A result is the string or the exception,
  the sections afterwards (a lookup may add one) and the random source afterwards.
  The first argument is how many nested \<open>Reference.__str__\<close> calls Python's
  recursion limit still lets through; at none, the call is the \<open>RuntimeError\<close>
  "maximum recursion depth exceeded".

  \<open>str.format\<close> converts a field with \<open>!s\<close> where it meets it: each field of the
  format string is a call of \<open>str\<close> on its \<open>Reference\<close>.
\<close>

type_synonym rendered = "(exc + string) \<times> sections \<times> rng"

function (sequential) str_reference :: "nat \<Rightarrow> sections \<Rightarrow> rng \<Rightarrow> string \<Rightarrow> rendered"
  and str_random_string :: "nat \<Rightarrow> sections \<Rightarrow> rng \<Rightarrow> collection \<Rightarrow> rendered"
  and str_value :: "nat \<Rightarrow> sections \<Rightarrow> rng \<Rightarrow> tvalue \<Rightarrow> rendered"
  and str_fields :: "nat \<Rightarrow> sections \<Rightarrow> rng \<Rightarrow> string list \<Rightarrow> piece list \<Rightarrow> string \<Rightarrow> rendered"
where
  "str_reference 0 conf g key = (Inl RuntimeError_recursion, conf, g)"
| "str_reference (Suc k) conf g key =
     str_random_string k (snd (config_getitem conf key)) g (fst (config_getitem conf key))"
| "str_random_string k conf g items =
     (case random_choice (iter_wc items) g of
        (Inl e, g') \<Rightarrow> (Inl e, conf, g')
      | (Inr item, g') \<Rightarrow> str_value k conf g' (item_value item))"
| "str_value k conf g (Str s) = (Inr s, conf, g)"
| "str_value k conf g (Reference key) = str_reference k conf g key"
| "str_value k conf g (ReferenceFormat format_string substitutions) =
     str_fields k conf g substitutions (fmt_pieces format_string) []"
| "str_fields k conf g subs [] acc = (Inr acc, conf, g)"
| "str_fields k conf g subs (Literal c # ps) acc = str_fields k conf g subs ps (acc @ [c])"
| "str_fields k conf g subs (Field i # ps) acc =
     (if i < length subs then
        (case str_reference k conf g (subs ! i) of
           (Inl e, conf', g') \<Rightarrow> (Inl e, conf', g')
         | (Inr s, conf', g') \<Rightarrow> str_fields k conf' g' subs ps (acc @ s))
      else (Inl IndexError, conf, g))"
| "str_fields k conf g subs (Bad e # ps) acc = (Inl e, conf, g)"
  by pat_completeness auto
termination
  by (relation "inv_image (less_than <*lex*> less_than <*lex*> less_than)
        (\<lambda>x. case x of
           Inl (Inl (k, _)) \<Rightarrow> (k, 0 :: nat, 0 :: nat)
         | Inl (Inr (k, _)) \<Rightarrow> (k, 3, 0)
         | Inr (Inl (k, _)) \<Rightarrow> (k, 2, 0)
         | Inr (Inr (k, conf, g, subs, ps, acc)) \<Rightarrow> (k, 1, length ps))")
    auto

section \<open>__init__.py\<close>

text \<open>\<open>str.upper()\<close> of one character of a byte string.\<close>

definition upper :: "char \<Rightarrow> char" where
  "upper c = (let n = (of_char c :: nat) in if 97 \<le> n \<and> n \<le> 122 then char_of (n - 32) else c)"

text \<open>
  \<open>Why.__call__(source)\<close>: \<open>reason[0]\<close> of an empty \<open>reason\<close> is an
  \<open>IndexError\<close>.
\<close>

definition why_call :: "nat \<Rightarrow> config \<Rightarrow> string \<Rightarrow> rng \<Rightarrow> (exc + string) \<times> config \<times> rng" where
  "why_call limit data source g =
     (case str_random_string limit (snd (config_getitem (sections data) source)) g
             (fst (config_getitem (sections data) source)) of
        (Inl e, conf, g') \<Rightarrow> (Inl e, data\<lparr>sections := conf\<rparr>, g')
      | (Inr reason, conf, g') \<Rightarrow>
          (case reason of
             [] \<Rightarrow> (Inl IndexError, data\<lparr>sections := conf\<rparr>, g')
           | c # cs \<Rightarrow> (Inr (upper c # cs), data\<lparr>sections := conf\<rparr>, g')))"

section \<open>Statements of the specification\<close>

text \<open>
  The value text of a weighted entry as the specification words it: the remainder of
  the line after the first \<open>:\<close>, one following space removed when there is one.
\<close>

definition spec_value_text :: "string \<Rightarrow> string" where
  "spec_value_text line =
     (case tl (dropWhile (\<lambda>c. c \<noteq> CHR '':'') line) of
        [] \<Rightarrow> []
      | c # cs \<Rightarrow> if c = CHR '' '' then cs else c # cs)"








section \<open>A missing entry point\<close>

lemma update_missing_key:
  "name \<notin> fst ` set conf \<Longrightarrow> AList.update name v conf = conf @ [(name, v)]"
  by (induction conf) auto

lemma config_getitem_missing:
  "name \<notin> fst ` set conf \<Longrightarrow> config_getitem conf name = ([], conf @ [(name, [])])"
  by (simp add: config_getitem_def map_of_eq_None_iff [THEN iffD2] update_missing_key)

lemma config_getitem_key:
  "map_of conf name = Some c \<Longrightarrow> config_getitem conf name = (c, conf)"
  by (simp add: config_getitem_def)

lemma str_random_string_empty:
  "str_random_string k conf g [] = (Inl IndexError, conf, rng_next g)"
  by (simp add: random_choice_def)

text \<open>
  C1 (as amended). Rendering a name that is not a key of the grammar fails when it is
  called, but not with a \<open>KeyError\<close>: \<open>Config.__missing__\<close> stores an empty
  collection under the name, and the draw from it is the \<open>IndexError\<close> of
  \<open>random.choice\<close> on an empty sequence. The grammar has the new, empty collection
  afterwards.
\<close>

theorem why_call_missing_source:
  assumes "source \<notin> fst ` set (sections data)"
  shows "why_call limit data source g =
           (Inl IndexError, data\<lparr>sections := sections data @ [(source, [])]\<rparr>, rng_next g)"
  using assms by (simp add: why_call_def config_getitem_missing random_choice_def)

theorem why_call_missing_source_witness:
  "''zz'' \<notin> fst ` set (sections \<lparr>sections = [(''a'', [\<lparr>weight = 1, item_value = Str ''x''\<rparr>])],
                                      references = []\<rparr>)
   \<and> why_call 5 \<lparr>sections = [(''a'', [\<lparr>weight = 1, item_value = Str ''x''\<rparr>])], references = []\<rparr>
         ''zz'' (\<lambda>i. 0) =
       (Inl IndexError,
        \<lparr>sections = [(''a'', [\<lparr>weight = 1, item_value = Str ''x''\<rparr>]), (''zz'', [])],
         references = []\<rparr>,
        rng_next (\<lambda>i. 0))"
  using why_call_missing_source
    [of "''zz''" "\<lparr>sections = [(''a'', [\<lparr>weight = 1, item_value = Str ''x''\<rparr>])], references = []\<rparr>"
        5 "\<lambda>i. 0"]
  by simp

text \<open>
  C1 as the specification states it fails: the grammar built from the two lines
  \<open>[a]\<close> and \<open>1: x\<close> has no collection \<open>zz\<close>, and rendering \<open>zz\<close> is an
  \<open>IndexError\<close>, not a \<open>KeyError\<close>.
\<close>

theorem why_call_missing_source_counterexample:
  "from_string (''[a]'' @ [CHR 0x0A] @ ''1: x'') =
     Inr \<lparr>sections = [(''a'', [\<lparr>weight = 1, item_value = Str ''x''\<rparr>])], references = []\<rparr>
   \<and> ''zz'' \<notin> set (map fst [(''a'', [\<lparr>weight = 1, item_value = Str ''x''\<rparr>])])
   \<and> fst (why_call 5 \<lparr>sections = [(''a'', [\<lparr>weight = 1, item_value = Str ''x''\<rparr>])],
                          references = []\<rparr> ''zz'' (\<lambda>i. 0)) = Inl IndexError
   \<and> fst (why_call 5 \<lparr>sections = [(''a'', [\<lparr>weight = 1, item_value = Str ''x''\<rparr>])],
                          references = []\<rparr> ''zz'' (\<lambda>i. 0)) \<noteq> Inl (KeyError ''zz'')"
  by code_simp

section \<open>An empty rendered string\<close>



section \<open>End of input\<close>

text \<open>
  C4, at the input \<open>[a]\<close> (one line, no newline after it): the section \<open>a\<close> is
  open and has no entry when the input ends, and \<open>from_string\<close> returns a grammar
  (an empty one) instead of raising. \<open>check_section\<close> is called for a blank line and
  for a section header only; nothing calls it after the loop.
\<close>

theorem from_string_open_section_at_end:
  "from_string ''[a]'' = Inr \<lparr>sections = [], references = []\<rparr>"
  by code_simp

section \<open>The value text of a weighted entry\<close>

lemma parse_section_not_value: "parse_section s \<noteq> Some (VALUE_LINE w v)"
  by (simp add: parse_section_def Let_def split: list.splits)

lemma parse_value_SomeD:
  "parse_value s = Some (VALUE_LINE w v) \<Longrightarrow>
     \<exists>r2. skip_white (dropWhile is_digit s) = CHR '':'' # r2 \<and> v = skip_white r2 \<and> v \<noteq> []
          \<and> w = int_of_digits (takeWhile is_digit s)"
  by (auto simp: parse_value_def Let_def split: list.splits if_splits)

lemma parseString_valueD:
  "parseString line = Some (VALUE_LINE w v) \<Longrightarrow>
     parse_value (skip_white (expandtabs line)) = Some (VALUE_LINE w v)"
  by (auto simp: parseString_def parse_section_not_value split: list.splits if_splits)

lemma white_not_colon: "\<not> is_white (CHR '':'')"
  by (simp add: is_white_def)

lemma digit_not_colon: "\<not> is_digit (CHR '':'')"
  by (simp add: is_digit_def)

lemma after_colon:
  assumes "skip_white (dropWhile is_digit (skip_white s)) = CHR '':'' # r2"
  shows "dropWhile (\<lambda>c. c \<noteq> CHR '':'') s = CHR '':'' # r2"
proof -
  let ?s0 = "skip_white s"
  let ?s1 = "dropWhile is_digit ?s0"
  have s: "s = takeWhile is_white s @ takeWhile is_digit ?s0 @ takeWhile is_white ?s1 @ CHR '':'' # r2"
    using assms unfolding skip_white_def
    by (metis takeWhile_dropWhile_id)
  have "\<forall>x \<in> set (takeWhile is_white s @ takeWhile is_digit ?s0 @ takeWhile is_white ?s1). x \<noteq> CHR '':''"
    by (auto dest!: set_takeWhileD simp: white_not_colon digit_not_colon)
  then have "dropWhile (\<lambda>c. c \<noteq> CHR '':'')
               ((takeWhile is_white s @ takeWhile is_digit ?s0 @ takeWhile is_white ?s1) @ CHR '':'' # r2)
             = CHR '':'' # r2"
    by (subst dropWhile_append2) auto
  with s show ?thesis by simp
qed

text \<open>
  C9 (as amended). The value text of a weighted entry is what is left of the line,
  after \<open>parseString\<close> has expanded its tabs, behind the first \<open>:\<close> once all the
  white space that follows the \<open>:\<close> is skipped (not one space at most): it is
  not empty and does not start with white space. What follows is kept as it is.
\<close>

theorem value_line_text:
  assumes "parseString line = Some (VALUE_LINE w v)"
  shows "v = skip_white (tl (dropWhile (\<lambda>c. c \<noteq> CHR '':'') (expandtabs line)))
         \<and> v \<noteq> [] \<and> \<not> is_white (hd v)"
proof -
  from assms obtain r2 where
    r2: "skip_white (dropWhile is_digit (skip_white (expandtabs line))) = CHR '':'' # r2"
    and v: "v = skip_white r2" "v \<noteq> []"
    using parseString_valueD parse_value_SomeD by blast
  from r2 have "dropWhile (\<lambda>c. c \<noteq> CHR '':'') (expandtabs line) = CHR '':'' # r2"
    by (rule after_colon)
  moreover have "\<not> is_white (hd v)"
    using v unfolding skip_white_def by (metis hd_dropWhile)
  ultimately show ?thesis using v by simp
qed

theorem value_line_text_witness:
  "parseString ''1:  foo'' = Some (VALUE_LINE 1 ''foo'')
   \<and> ''foo'' = skip_white (tl (dropWhile (\<lambda>c. c \<noteq> CHR '':'') (expandtabs ''1:  foo'')))
   \<and> ''foo'' \<noteq> [] \<and> \<not> is_white (hd ''foo'')"
proof -
  have p: "parseString ''1:  foo'' = Some (VALUE_LINE 1 ''foo'')"
    by code_simp
  show ?thesis using p value_line_text [OF p] by simp
qed

text \<open>
  C9 as the specification states it fails on \<open>1:  foo\<close> (two spaces): the value
  text is \<open>foo\<close>, where the specification keeps the second space.
\<close>

theorem value_line_text_counterexample:
  "parseString ''1:  foo'' = Some (VALUE_LINE 1 ''foo'')
   \<and> spec_value_text ''1:  foo'' = '' foo''
   \<and> ''foo'' \<noteq> spec_value_text ''1:  foo''"
  by code_simp

section \<open>The weighted pool\<close>







section \<open>The loop of from_string\<close>

subsection \<open>What a successful turn of the loop did\<close>





declare process_line.simps [simp del]




subsection \<open>Weights\<close>









section \<open>References\<close>

subsection \<open>unique and findall\<close>

declare findall.simps(2) [simp del]











subsection \<open>Keys and registered references after the loop\<close>









section \<open>Rendering and the grammar\<close>













section \<open>The three forms of a value\<close>




section \<open>Repeated references in a template\<close>





















end
